theory Spec2Isabelle
  imports Main
begin

section \<open>Client session state (src/client/jwt.ts) and the server's origin check\<close>

text \<open>
  The module keeps three pieces of mutable state: the browser's \<open>localStorage\<close>, the
  fragment of \<open>window.location\<close>, and the module variable \<open>__isLoggedIn\<close>. Every function
  below takes the state and returns the new one. What the module does to its collaborators
  (\<open>fetch\<close>, \<open>decodeJwt\<close>, \<open>console\<close>, \<open>Browser.close\<close>) is appended to a trace, in
  program order, so that "one POST", "no decode" and "browser not closed" are statements
  about the trace.

  An \<open>async\<close> function runs synchronously up to its first \<open>await\<close>; what follows the
  \<open>await\<close> runs in a later turn of the event loop, once the awaited promise has settled.
  Each \<open>async\<close> function \<open>f\<close> is therefore two functions: \<open>f_start\<close>, the part the caller
  observes before the call returns a promise, and \<open>f_resume\<close>, the continuation, which takes
  the outcome of the awaited \<open>fetch\<close>.

  Assumptions of the model: \<open>localStorage\<close>, \<open>history.replaceState\<close> and \<open>Browser.close\<close>
  do not throw; numeric claims are integers (seconds); the typed fields of a decoded payload
  have the types that the decoder's declaration gives them. A token is a non-empty string:
  the module takes \<open>null\<close> and the empty string alike for "no token" (\<open>if (!token)\<close>).
\<close>

subsection \<open>String operations of the host language\<close>

text \<open>\<open>s.split(sep)\<close> for a one-character separator: never the empty list.\<close>

fun js_split :: "char \<Rightarrow> string \<Rightarrow> string list" where
  "js_split sep [] = [[]]"
| "js_split sep (c # cs) =
     (if c = sep then [] # js_split sep cs
      else (case js_split sep cs of
              [] \<Rightarrow> [[c]]
            | w # ws \<Rightarrow> (c # w) # ws))"

text \<open>\<open>xs.slice(-n)\<close>: the last \<open>n\<close> elements, all of them when there are fewer.\<close>

definition js_slice_last :: "nat \<Rightarrow> 'a list \<Rightarrow> 'a list" where
  "js_slice_last n xs = drop (length xs - n) xs"

text \<open>\<open>xs.join(sep)\<close>.\<close>

fun js_join :: "string \<Rightarrow> string list \<Rightarrow> string" where
  "js_join sep [] = []"
| "js_join sep [x] = x"
| "js_join sep (x # y # ys) = x @ sep @ js_join sep (y # ys)"

text \<open>\<open>s.replace(pat, rep)\<close> with a string pattern: the first occurrence only.\<close>

fun js_replace :: "string \<Rightarrow> string \<Rightarrow> string \<Rightarrow> string" where
  "js_replace pat rep [] = (if pat = [] then rep else [])"
| "js_replace pat rep (c # cs) =
     (if take (length pat) (c # cs) = pat then rep @ drop (length pat) (c # cs)
      else c # js_replace pat rep cs)"

text \<open>Truthiness of a value of type \<open>string | null | undefined\<close>.\<close>

fun truthy :: "string option \<Rightarrow> bool" where
  "truthy None = False"
| "truthy (Some s) = (s \<noteq> [])"

subsection \<open>Data\<close>

text \<open>The \<open>aud\<close> claim of a decoded payload is a string or an array of strings.\<close>

datatype audience = AudString string | AudList "string list"

text \<open>
  The decoded payload: the four claims that the validator reads. The application's own
  claims are the extension of the record.
\<close>

record JWTPayload =
  iss :: "string option"
  aud :: "audience option"
  exp :: "int option"
  iat :: "int option"

text \<open>\<open>IsLoggedInResponse\<close>: \<open>false\<close>, or the token with its validated claims.\<close>

datatype 'c IsLoggedInResponse = LoggedOut | LoggedIn string 'c

record request =
  url :: string
  http_method :: string
  headers :: "(string \<times> string) list"
  body :: "(string \<times> string) list option"

text \<open>
  A response as far as the module reads it; \<open>json = None\<close> when \<open>response.json()\<close>
  rejects. The awaited \<open>fetch\<close> either rejects or yields a response.
\<close>

record 'j response =
  status :: nat
  json :: "'j option"

definition response_ok :: "'j response \<Rightarrow> bool" where
  "response_ok r = (200 \<le> status r \<and> status r \<le> 299)"

datatype 'j fetch_outcome = FetchRejected | FetchResponse "'j response"

datatype event =
    Fetch request
  | DecodeJwt string
  | ConsoleLog string
  | ConsoleError string
  | BrowserClose

text \<open>
  The promise an \<open>async\<close> call hands back when it returns: already fulfilled with a value,
  already rejected, or suspended at an \<open>await\<close>.
\<close>

datatype 'a promise = Fulfilled 'a | Rejected | Awaiting

text \<open>
  What the module is given: the platform, the build-time environment, the page's host name,
  and the library functions it calls. \<open>decodeJwt\<close> returns \<open>None\<close> where the library throws;
  \<open>URL_search\<close> is the query string of \<open>new URL(s)\<close>, \<open>None\<close> where the constructor throws;
  \<open>URLSearchParams_get q k\<close> is \<open>new URLSearchParams(q).get(k)\<close>. The two schemas are
  those of \<open>core/ApiSchemas\<close>; \<open>safeParse\<close> gives \<open>None\<close> when \<open>success\<close> is false.
\<close>

record ('x, 'c, 'j) env =
  platform :: string
  CAPACITOR_PRODUCTION_HOSTNAME :: "string option"
  API_BASE_URL :: "string option"
  location_hostname :: string
  decodeJwt :: "string \<Rightarrow> 'x JWTPayload_scheme option"
  TokenPayloadSchema_safeParse :: "'x JWTPayload_scheme \<Rightarrow> 'c option"
  RefreshResponseSchema_safeParse :: "'j \<Rightarrow> string option"
  URLSearchParams_get :: "string \<Rightarrow> string \<Rightarrow> string option"
  URL_search :: "string \<Rightarrow> string option"

text \<open>\<open>uu_isLoggedIn\<close> is the module variable \<open>__isLoggedIn\<close>; \<open>None\<close> is \<open>undefined\<close>.\<close>

record 'c state =
  localStorage :: "string \<rightharpoonup> string"
  location_hash :: string
  uu_isLoggedIn :: "'c IsLoggedInResponse option"
  trace :: "event list"

definition emit :: "event \<Rightarrow> 'c state \<Rightarrow> 'c state" where
  "emit e st = st\<lparr>trace := trace st @ [e]\<rparr>"

definition setItem :: "string \<Rightarrow> string \<Rightarrow> 'c state \<Rightarrow> 'c state" where
  "setItem k v st = st\<lparr>localStorage := (localStorage st)(k \<mapsto> v)\<rparr>"

definition removeItem :: "string \<Rightarrow> 'c state \<Rightarrow> 'c state" where
  "removeItem k st = st\<lparr>localStorage := (localStorage st)(k := None)\<rparr>"

text \<open>The requests in a trace, in the order they were issued.\<close>

fun fetches :: "event list \<Rightarrow> request list" where
  "fetches [] = []"
| "fetches (Fetch r # es) = r # fetches es"
| "fetches (_ # es) = fetches es"

text \<open>The tokens handed to \<open>decodeJwt\<close>, in order.\<close>

fun decodes :: "event list \<Rightarrow> string list" where
  "decodes [] = []"
| "decodes (DecodeJwt t # es) = t # decodes es"
| "decodes (_ # es) = decodes es"

subsection \<open>Platform, audience, API base, token\<close>

definition isNative :: "('x, 'c, 'j) env \<Rightarrow> bool" where
  "isNative env = (platform env \<noteq> ''web'')"

definition getAudience :: "('x, 'c, 'j) env \<Rightarrow> string" where
  "getAudience env =
     (let hostname = (if truthy (CAPACITOR_PRODUCTION_HOSTNAME env)
                      then the (CAPACITOR_PRODUCTION_HOSTNAME env)
                      else location_hostname env);
          domainname = js_join ''.'' (js_slice_last 2 (js_split CHR ''.'' hostname))
      in domainname)"

text \<open>
  \<open>getApiBase\<close>; \<open>None\<close> is the TypeError of \<open>process.env.API_BASE_URL!.replace\<close> on an
  undefined variable. The condition of the inner conditional is
  \<open>localStorage.getItem("apiHost") ?? (isNative && process.env.API_BASE_URL)\<close>.
\<close>

definition getApiBase :: "('x, 'c, 'j) env \<Rightarrow> 'c state \<Rightarrow> string option" where
  "getApiBase env st =
     (let domainname = getAudience env in
      if domainname = ''localhost'' then
        (if (case localStorage st ''apiHost'' of
               Some h \<Rightarrow> truthy (Some h)
             | None \<Rightarrow> isNative env \<and> truthy (API_BASE_URL env))
         then (case API_BASE_URL env of
                 None \<Rightarrow> None
               | Some u \<Rightarrow> Some (js_replace ''9000'' ''8787'' u))
         else Some ''http://localhost:8787'')
      else Some (''https://api.'' @ domainname))"

text \<open>
  \<open>getToken\<close>: a token delivered in the fragment is stored first, and the fragment is
  removed from the URL whenever it starts with \<open>#\<close>.
\<close>

definition getToken :: "('x, 'c, 'j) env \<Rightarrow> 'c state \<Rightarrow> string option \<times> 'c state" where
  "getToken env st =
     (let hash = location_hash st;
          st1 = (if take 1 hash = ''#'' then
                   (let token = URLSearchParams_get env (drop 1 hash) ''token'';
                        st' = (if truthy token then setItem ''token'' (the token) st else st)
                    in st'\<lparr>location_hash := []\<rparr>)
                 else st)
      in (localStorage st1 ''token'', st1))"

subsection \<open>Logout\<close>

definition bearer :: "string \<Rightarrow> (string \<times> string) list" where
  "bearer token = [(''authorization'', ''Bearer '' @ token)]"

definition logOut_request :: "string \<Rightarrow> bool \<Rightarrow> string \<Rightarrow> request" where
  "logOut_request base allSessions token =
     \<lparr>url = base @ (if allSessions then ''/revoke'' else ''/logout''),
      http_method = ''POST'', headers = bearer token, body = None\<rparr>"

text \<open>
  \<open>logOut\<close> up to its \<open>await fetch\<close>. The value of the promise is \<open>None\<close> for
  \<open>undefined\<close> (the bare \<open>return\<close>). An exception of \<open>getApiBase\<close> rejects the promise,
  after the token has been removed.
\<close>

definition logOut_start :: "('x, 'c, 'j) env \<Rightarrow> bool \<Rightarrow> 'c state \<Rightarrow> bool option promise \<times> 'c state" where
  "logOut_start env allSessions st =
     (case localStorage st ''token'' of
        None \<Rightarrow> (Fulfilled None, st)
      | Some token \<Rightarrow>
          (let st1 = removeItem ''token'' st;
               st2 = st1\<lparr>uu_isLoggedIn := Some LoggedOut\<rparr>
           in case getApiBase env st2 of
                None \<Rightarrow> (Rejected, st2)
              | Some base \<Rightarrow> (Awaiting, emit (Fetch (logOut_request base allSessions token)) st2)))"

text \<open>\<open>logOut\<close> after the \<open>await\<close>: a rejected \<open>fetch\<close> rejects the promise.\<close>

definition logOut_resume :: "'j fetch_outcome \<Rightarrow> 'c state \<Rightarrow> bool option promise \<times> 'c state" where
  "logOut_resume outcome st =
     (case outcome of
        FetchRejected \<Rightarrow> (Rejected, st)
      | FetchResponse r \<Rightarrow>
          (if response_ok r = False then (Fulfilled (Some False), emit (ConsoleError ''Logout failed'') st)
           else (Fulfilled (Some True), st)))"

subsection \<open>Refresh\<close>

definition refresh_request :: "string \<Rightarrow> string \<Rightarrow> request" where
  "refresh_request base token =
     \<lparr>url = base @ ''/refresh'', http_method = ''POST'', headers = bearer token, body = None\<rparr>"

text \<open>
  \<open>postRefresh\<close> up to its \<open>await fetch\<close>. The whole body is inside \<open>try\<close>: an exception
  of \<open>getApiBase\<close> is caught, sets \<open>__isLoggedIn = false\<close> and returns \<open>false\<close>.
\<close>

definition postRefresh_start :: "('x, 'c, 'j) env \<Rightarrow> 'c state \<Rightarrow> bool promise \<times> 'c state" where
  "postRefresh_start env st =
     (let (token, st1) = getToken env st in
      if \<not> truthy token then (Fulfilled False, st1)
      else (case getApiBase env st1 of
              None \<Rightarrow> (Fulfilled False, st1\<lparr>uu_isLoggedIn := Some LoggedOut\<rparr>)
            | Some base \<Rightarrow> (Awaiting, emit (Fetch (refresh_request base (the token))) st1)))"

text \<open>
  \<open>postRefresh\<close> after the \<open>await\<close>. A rejected \<open>fetch\<close> and a rejected
  \<open>response.json()\<close> are the \<open>catch\<close> branch.
\<close>

definition postRefresh_resume :: "('x, 'c, 'j) env \<Rightarrow> 'j fetch_outcome \<Rightarrow> 'c state \<Rightarrow> bool \<times> 'c state" where
  "postRefresh_resume env outcome st =
     (case outcome of
        FetchRejected \<Rightarrow> (False, st\<lparr>uu_isLoggedIn := Some LoggedOut\<rparr>)
      | FetchResponse r \<Rightarrow>
          (if status r \<noteq> 200 then (False, st)
           else (case json r of
                   None \<Rightarrow> (False, st\<lparr>uu_isLoggedIn := Some LoggedOut\<rparr>)
                 | Some b \<Rightarrow>
                     (case RefreshResponseSchema_safeParse env b of
                        None \<Rightarrow> (False, emit (ConsoleError ''Invalid response'') st)
                      | Some token \<Rightarrow> (True, setItem ''token'' token st)))))"

text \<open>
  A whole call of \<open>postRefresh\<close> with nothing running in between: the value its promise
  resolves to, and the state afterwards. The outcome is consumed only when the call
  reaches its \<open>fetch\<close>.
\<close>

definition postRefresh :: "('x, 'c, 'j) env \<Rightarrow> 'j fetch_outcome \<Rightarrow> 'c state \<Rightarrow> bool \<times> 'c state" where
  "postRefresh env outcome st =
     (case postRefresh_start env st of
        (Fulfilled b, st1) \<Rightarrow> (b, st1)
      | (Rejected, st1) \<Rightarrow> (False, st1)
      | (Awaiting, st1) \<Rightarrow> postRefresh_resume env outcome st1)"

text \<open>The callback that the validator chains on the refresh promise.\<close>

definition refresh_then :: "bool \<Rightarrow> 'c state \<Rightarrow> 'c state" where
  "refresh_then success st =
     (if success then emit (ConsoleLog ''Refreshed access token successfully.'') st
      else emit (ConsoleError ''Failed to refresh access token.'') st)"

subsection \<open>The claim validator and the session cache\<close>

definition refreshAge :: int where
  "refreshAge = 6 * 3600"

text \<open>The two conditions on the timestamps, for \<open>now\<close> in seconds:
  \<open>exp !== undefined && now >= exp\<close> and \<open>iat !== undefined && now >= iat + refreshAge\<close>.\<close>

definition expired :: "int \<Rightarrow> 'x JWTPayload_scheme \<Rightarrow> bool" where
  "expired now p = (case exp p of None \<Rightarrow> False | Some e \<Rightarrow> now \<ge> e)"

definition refresh_due :: "int \<Rightarrow> 'x JWTPayload_scheme \<Rightarrow> bool" where
  "refresh_due now p = (case iat p of None \<Rightarrow> False | Some i \<Rightarrow> now \<ge> i + refreshAge)"

text \<open>
  \<open>_isLoggedIn\<close>, given \<open>Date.now()\<close> in milliseconds. Every exception inside \<open>try\<close>
  (of \<open>decodeJwt\<close>, of \<open>getApiBase\<close>) is logged and gives \<open>false\<close>. \<open>logOut()\<close> and
  \<open>postRefresh()\<close> are called without \<open>await\<close>: their synchronous part runs here, their
  promise is dropped.
\<close>

definition u_isLoggedIn :: \<open>('x, 'c, 'j) env \<Rightarrow> int \<Rightarrow> 'c state \<Rightarrow> 'c IsLoggedInResponse \<times> 'c state\<close> where
  \<open>u_isLoggedIn env now_ms st =
     (let (token, st1) = getToken env st in
      if \<not> truthy token then (LoggedOut, st1)
      else
       (let st2 = emit (DecodeJwt (the token)) st1 in
        case decodeJwt env (the token) of
          None \<Rightarrow> (LoggedOut, emit (ConsoleLog ''exception'') st2)
        | Some payload \<Rightarrow>
           (case getApiBase env st2 of
              None \<Rightarrow> (LoggedOut, emit (ConsoleLog ''exception'') st2)
            | Some base \<Rightarrow>
               if iss payload \<noteq> Some base \<and> \<not> isNative env then
                 (LoggedOut,
                  snd (logOut_start env False (emit (ConsoleError ''unexpected "iss" claim value'') st2)))
               else if aud payload \<noteq> Some (AudString (getAudience env)) then
                 (LoggedOut,
                  snd (logOut_start env False (emit (ConsoleError ''unexpected "aud" claim value'') st2)))
               else
                (let now = now_ms div 1000 in
                 if expired now payload then
                   (LoggedOut,
                    snd (logOut_start env False (emit (ConsoleError ''after "exp" claim value'') st2)))
                 else
                  (let st3 = (if refresh_due now payload
                              then snd (postRefresh_start env (emit (ConsoleLog ''Refreshing access token...'') st2))
                              else st2)
                   in case TokenPayloadSchema_safeParse env payload of
                        None \<Rightarrow> (LoggedOut, emit (ConsoleError ''Invalid payload'') st3)
                      | Some claims \<Rightarrow> (LoggedIn (the token) claims, st3))))))\<close>

text \<open>\<open>isLoggedIn\<close>: the memo is filled on the first call and returned afterwards.\<close>

definition isLoggedIn :: "('x, 'c, 'j) env \<Rightarrow> int \<Rightarrow> 'c state \<Rightarrow> 'c IsLoggedInResponse \<times> 'c state" where
  "isLoggedIn env now_ms st =
     (case uu_isLoggedIn st of
        None \<Rightarrow> (let (r, st1) = u_isLoggedIn env now_ms st in (r, st1\<lparr>uu_isLoggedIn := Some r\<rparr>))
      | Some r \<Rightarrow> (r, st))"

text \<open>
  For a call of the validator that dispatches a refresh: the turn of the event loop that runs
  the validator, followed by the turn in which the refresh settles with the given outcome and
  the chained callback runs. The result is the value the validator had returned, with the
  state after the second turn.
\<close>

definition validate_then_refresh_settles ::
    "('x, 'c, 'j) env \<Rightarrow> int \<Rightarrow> 'j fetch_outcome \<Rightarrow> 'c state \<Rightarrow> 'c IsLoggedInResponse \<times> 'c state" where
  "validate_then_refresh_settles env now_ms outcome st =
     (let (r, st1) = u_isLoggedIn env now_ms st;
          (success, st2) = postRefresh_resume env outcome st1
      in (r, refresh_then success st2))"

text \<open>The POST requests of a trace that went to one URL.\<close>

definition posts_to :: "string \<Rightarrow> event list \<Rightarrow> request list" where
  "posts_to u es = filter (\<lambda>r. url r = u \<and> http_method r = ''POST'') (fetches es)"

subsection \<open>The native callback\<close>

definition callback_request :: "string \<Rightarrow> string \<Rightarrow> string \<Rightarrow> string \<Rightarrow> request" where
  "callback_request base code st_param redirectUri =
     \<lparr>url = base @ ''/mobile/callback'', http_method = ''POST'',
      headers = [(''Content-Type'', ''application/json'')],
      body = Some [(''code'', code), (''state'', st_param), (''redirect_uri'', redirectUri)]\<rparr>"

text \<open>
  The listener of \<open>appUrlOpen\<close> up to its first \<open>await\<close>. The exceptions of \<open>new URL\<close>
  and of \<open>getApiBase\<close> reach the \<open>catch\<close>, which logs and closes the browser. An undefined
  \<open>API_BASE_URL\<close> prints as \<open>undefined\<close> in the redirect URI.
\<close>

definition appUrlOpen_start :: "('x, 'c, 'j) env \<Rightarrow> string \<Rightarrow> 'c state \<Rightarrow> unit promise \<times> 'c state" where
  "appUrlOpen_start env data_url st =
     (case URL_search env data_url of
        None \<Rightarrow> (Awaiting, emit BrowserClose (emit (ConsoleError ''Error handling appUrlOpen'') st))
      | Some q \<Rightarrow>
          (let code = URLSearchParams_get env q ''code'';
               state = URLSearchParams_get env q ''state'';
               error = URLSearchParams_get env q ''error''
           in if truthy error then
                (Awaiting, emit BrowserClose (emit (ConsoleError ''Error from auth provider:'') st))
              else if truthy code \<and> truthy state then
                (let redirectUri = (case API_BASE_URL env of None \<Rightarrow> ''undefined'' | Some u \<Rightarrow> u)
                                     @ ''/discord-redirect.html''
                 in case getApiBase env st of
                      None \<Rightarrow> (Awaiting, emit BrowserClose (emit (ConsoleError ''Error handling appUrlOpen'') st))
                    | Some base \<Rightarrow>
                        (Awaiting, emit (Fetch (callback_request base (the code) (the state) redirectUri)) st))
              else (Fulfilled (), st)))"

text \<open>\<open>initializeAuthListener\<close>: no listener on the web platform.\<close>

definition initializeAuthListener ::
    "('x, 'c, 'j) env \<Rightarrow> (string \<Rightarrow> 'c state \<Rightarrow> unit promise \<times> 'c state) option" where
  "initializeAuthListener env =
     (if platform env = ''web'' then None else Some (appUrlOpen_start env))"

subsection \<open>The origin check of the server\<close>

text \<open>\<open>xs.indexOf(x)\<close>: the first index, or \<open>-1\<close>.\<close>

fun indexOf :: "'a list \<Rightarrow> 'a \<Rightarrow> int" where
  "indexOf [] x = -1"
| "indexOf (y # ys) x =
     (if y = x then 0 else (let i = indexOf ys x in if i = -1 then -1 else i + 1))"

text \<open>
  The allow-list. The server's configuration gives its own origin and its environment;
  \<open>GameEnv_Dev\<close> is the value \<open>GameEnv.Dev\<close> of the configuration's enumeration, and
  \<open>localIp\<close> is what \<open>getLocalIP()\<close> returned.
\<close>

definition allowedOrigins :: "string \<Rightarrow> 'e \<Rightarrow> 'e \<Rightarrow> string option \<Rightarrow> string list" where
  "allowedOrigins config_origin config_env GameEnv_Dev localIp =
     [config_origin, ''capacitor://openfront.io'', ''https://openfront.io'']
     @ (if config_env = GameEnv_Dev then
          (if truthy localIp then [''http://'' @ the localIp @ '':9000''] else [])
        else [])"

text \<open>
  How the check calls its callback: \<open>callback(null, true)\<close> is \<open>Callback None (Some True)\<close>,
  \<open>callback(new Error(m))\<close> is \<open>Callback (Some m) None\<close>.
\<close>

datatype cors_callback = Callback "string option" "bool option"

record corsOptions_type =
  origin :: "string option \<Rightarrow> cors_callback"
  credentials :: bool

definition corsOptions :: "string list \<Rightarrow> corsOptions_type" where
  "corsOptions allowed =
     \<lparr>origin = (\<lambda>origin.
         if \<not> truthy origin then Callback None (Some True)
         else if indexOf allowed (the origin) \<noteq> -1 then Callback None (Some True)
         else Callback (Some ''Not allowed by CORS'') None),
      credentials = True\<rparr>"

subsection \<open>Concrete inputs\<close>

text \<open>
  A decoder, a claim schema and a response schema to run the definitions on. Token
  \<open>t-good\<close> was issued at second 1000000 for one day; \<open>t-iss\<close> has another issuer;
  \<open>t-shape\<close> lacks the timestamps that the example schema requires; \<open>t-local\<close> is a
  token of a local deployment.
\<close>

definition example_decodeJwt :: "string \<Rightarrow> JWTPayload option" where
  "example_decodeJwt token =
     (if token = ''t-good'' then
        Some \<lparr>iss = Some ''https://api.example.com'', aud = Some (AudString ''example.com''),
              exp = Some 1086400, iat = Some 1000000\<rparr>
      else if token = ''t-iss'' then
        Some \<lparr>iss = Some ''https://api.evil.example'', aud = Some (AudString ''example.com''),
              exp = Some 1086400, iat = Some 1000000\<rparr>
      else if token = ''t-shape'' then
        Some \<lparr>iss = Some ''https://api.example.com'', aud = Some (AudString ''example.com''),
              exp = None, iat = None\<rparr>
      else if token = ''t-local'' then
        Some \<lparr>iss = Some ''http://localhost:8787'', aud = Some (AudString ''localhost''),
              exp = Some 1086400, iat = Some 1000000\<rparr>
      else None)"

definition example_TokenPayloadSchema :: "JWTPayload \<Rightarrow> JWTPayload option" where
  "example_TokenPayloadSchema p = (if exp p = None \<or> iat p = None then None else Some p)"

definition example_env ::
    "string \<Rightarrow> string \<Rightarrow> string option \<Rightarrow> (unit, JWTPayload, (string \<times> string) list) env" where
  "example_env plat host api =
     \<lparr>platform = plat, CAPACITOR_PRODUCTION_HOSTNAME = None, API_BASE_URL = api,
      location_hostname = host, decodeJwt = example_decodeJwt,
      TokenPayloadSchema_safeParse = example_TokenPayloadSchema,
      RefreshResponseSchema_safeParse = (\<lambda>b. map_of b ''token''),
      URLSearchParams_get = (\<lambda>q k. if q = ''?code=abc'' \<and> k = ''code'' then Some ''abc'' else None),
      URL_search = (\<lambda>u. if u = ''openfront://callback?code=abc'' then Some ''?code=abc'' else None)\<rparr>"

definition example_state :: "(string \<times> string) list \<Rightarrow> JWTPayload IsLoggedInResponse option \<Rightarrow> JWTPayload state" where
  "example_state items memo =
     \<lparr>localStorage = map_of items, location_hash = [], uu_isLoggedIn = memo, trace = []\<rparr>"

text \<open>A web page and a native shell of the deployment \<open>example.com\<close>, and a store that
  holds one token.\<close>

definition web_env :: "(unit, JWTPayload, (string \<times> string) list) env" where
  "web_env = example_env ''web'' ''play.example.com'' None"

definition native_env :: "(unit, JWTPayload, (string \<times> string) list) env" where
  "native_env = example_env ''ios'' ''play.example.com'' (Some ''https://api.example.com'')"

definition stored :: "string \<Rightarrow> JWTPayload state" where
  "stored tok = example_state [(''token'', tok)] None"

section \<open>Properties\<close>

subsection \<open>What the helpers leave unchanged\<close>

lemma getApiBase_cong:
  "localStorage st' ''apiHost'' = localStorage st ''apiHost'' \<Longrightarrow> getApiBase env st' = getApiBase env st"
  by (simp add: getApiBase_def)

lemma getToken_props:
  assumes "getToken env st = (tok, st1)"
  shows "localStorage st1 ''token'' = tok"
    and "take 1 (location_hash st1) \<noteq> ''#''"
    and "trace st1 = trace st"
    and "uu_isLoggedIn st1 = uu_isLoggedIn st"
    and "localStorage st1 ''apiHost'' = localStorage st ''apiHost''"
  using assms
  by (auto simp: getToken_def Let_def setItem_def split: if_splits)

lemma getToken_no_hash:
  "take 1 (location_hash st) \<noteq> ''#'' \<Longrightarrow> getToken env st = (localStorage st ''token'', st)"
  by (simp add: getToken_def)

lemma logOut_start_present:
  assumes "localStorage st ''token'' = Some t" and "getApiBase env st = Some base"
  shows "logOut_start env a st =
     (Awaiting, st\<lparr>localStorage := (localStorage st)(''token'' := None),
                   uu_isLoggedIn := Some LoggedOut,
                   trace := trace st @ [Fetch (logOut_request base a t)]\<rparr>)"
proof -
  have "getApiBase env ((removeItem ''token'' st)\<lparr>uu_isLoggedIn := Some LoggedOut\<rparr>) = Some base"
    using assms(2) getApiBase_cong[of "(removeItem ''token'' st)\<lparr>uu_isLoggedIn := Some LoggedOut\<rparr>" st env]
    by (simp add: removeItem_def)
  then show ?thesis using assms(1)
    by (simp add: logOut_start_def Let_def emit_def removeItem_def)
qed

lemma fetches_append: "fetches (xs @ ys) = fetches xs @ fetches ys"
  by (induction xs rule: fetches.induct) auto

lemma decodes_append: "decodes (xs @ ys) = decodes xs @ decodes ys"
  by (induction xs rule: decodes.induct) auto

lemma logOut_after_decode:
  assumes "getToken env st = (Some t, st1)" and "getApiBase env st = Some base"
  shows "snd (logOut_start env False (emit (ConsoleError m) (emit (DecodeJwt t) st1))) =
         st1\<lparr>localStorage := (localStorage st1)(''token'' := None),
             uu_isLoggedIn := Some LoggedOut,
             trace := trace st @ [DecodeJwt t, ConsoleError m, Fetch (logOut_request base False t)]\<rparr>"
proof -
  let ?s = "emit (ConsoleError m) (emit (DecodeJwt t) st1)"
  have tok: "localStorage ?s ''token'' = Some t"
    using getToken_props(1)[OF assms(1)] by (simp add: emit_def)
  have "getApiBase env ?s = getApiBase env st"
    using getToken_props(5)[OF assms(1)] by (intro getApiBase_cong) (simp add: emit_def)
  then have base: "getApiBase env ?s = Some base" using assms(2) by simp
  show ?thesis
    using getToken_props(3)[OF assms(1)]
    by (simp add: logOut_start_present[OF tok base]) (simp add: emit_def)
qed

lemma postRefresh_after_decode:
  assumes "getToken env st = (Some t, st1)" and "t \<noteq> []" and "getApiBase env st = Some base"
  shows "snd (postRefresh_start env (emit (ConsoleLog m) (emit (DecodeJwt t) st1))) =
         st1\<lparr>trace := trace st @ [DecodeJwt t, ConsoleLog m, Fetch (refresh_request base t)]\<rparr>"
proof -
  let ?s = "emit (ConsoleLog m) (emit (DecodeJwt t) st1)"
  have nohash: "take 1 (location_hash ?s) \<noteq> ''#''"
    using getToken_props(2)[OF assms(1)] by (simp add: emit_def)
  have tok: "localStorage ?s ''token'' = Some t"
    using getToken_props(1)[OF assms(1)] by (simp add: emit_def)
  have "getApiBase env ?s = getApiBase env st"
    using getToken_props(5)[OF assms(1)] by (intro getApiBase_cong) (simp add: emit_def)
  then have base: "getApiBase env ?s = Some base" using assms(3) by simp
  show ?thesis
    using getToken_props(3)[OF assms(1)] assms(2)
    by (simp add: postRefresh_start_def getToken_no_hash[OF nohash] tok base) (simp add: emit_def)
qed

lemma u_isLoggedIn_cases:
  assumes gt: "getToken env st = (Some t, st1)" and ne: "t \<noteq> []"
      and dec: "decodeJwt env t = Some p" and base: "getApiBase env st = Some base"
  shows \<open>u_isLoggedIn env now_ms st =
    (if iss p \<noteq> Some base \<and> \<not> isNative env then
       (LoggedOut, st1\<lparr>localStorage := (localStorage st1)(''token'' := None),
             uu_isLoggedIn := Some LoggedOut,
             trace := trace st @ [DecodeJwt t, ConsoleError ''unexpected "iss" claim value'', Fetch (logOut_request base False t)]\<rparr>)
     else if aud p \<noteq> Some (AudString (getAudience env)) then
       (LoggedOut, st1\<lparr>localStorage := (localStorage st1)(''token'' := None),
             uu_isLoggedIn := Some LoggedOut,
             trace := trace st @ [DecodeJwt t, ConsoleError ''unexpected "aud" claim value'', Fetch (logOut_request base False t)]\<rparr>)
     else if expired (now_ms div 1000) p then
       (LoggedOut, st1\<lparr>localStorage := (localStorage st1)(''token'' := None),
             uu_isLoggedIn := Some LoggedOut,
             trace := trace st @ [DecodeJwt t, ConsoleError ''after "exp" claim value'', Fetch (logOut_request base False t)]\<rparr>)
     else
       (let st3 = (if refresh_due (now_ms div 1000) p
                   then st1\<lparr>trace := trace st @ [DecodeJwt t, ConsoleLog ''Refreshing access token...'', Fetch (refresh_request base t)]\<rparr>
                   else st1\<lparr>trace := trace st @ [DecodeJwt t]\<rparr>)
        in case TokenPayloadSchema_safeParse env p of
             None \<Rightarrow> (LoggedOut, emit (ConsoleError ''Invalid payload'') st3)
           | Some claims \<Rightarrow> (LoggedIn t claims, st3)))\<close>
proof -
  have b2: "getApiBase env (emit (DecodeJwt t) st1) = Some base"
    using getToken_props(5)[OF gt] base getApiBase_cong[of "emit (DecodeJwt t) st1" st env]
    by (simp add: emit_def)
  have e2: "emit (DecodeJwt t) st1 = st1\<lparr>trace := trace st @ [DecodeJwt t]\<rparr>"
    using getToken_props(3)[OF gt] by (simp add: emit_def)
  show ?thesis
    unfolding u_isLoggedIn_def gt
    using ne dec b2
    by (simp add: logOut_after_decode[OF gt base] postRefresh_after_decode[OF gt ne base] Let_def
          split: option.splits)
       (simp add: e2)
qed

subsection \<open>The claim validator\<close>

lemma getToken_fst:
  assumes "fst (getToken env st) = Some t"
  obtains st1 where "getToken env st = (Some t, st1)"
  using assms by (cases "getToken env st") auto

text \<open>
  Claim C1, with the proviso that the API base can be computed. A stored token decodes
  to claims with an \<open>exp\<close> that the current time (in seconds) has reached, and the memo is
  unset. Then \<open>isLoggedIn()\<close> returns \<open>false\<close>, the token is gone from the store, the
  memo holds \<open>false\<close>, and the call has issued exactly one request: the logout POST that
  carries the token. This holds whichever of the three checks (issuer, audience, expiry)
  fires first.
\<close>

theorem expired_token_logs_out:
  assumes memo: "uu_isLoggedIn st = None"
    and tok: "fst (getToken env st) = Some t" and ne: "t \<noteq> []"
    and dec: "decodeJwt env t = Some p"
    and ex: "exp p = Some e" and late: "e \<le> now_ms div 1000"
    and base: "getApiBase env st = Some base"
  shows "fst (isLoggedIn env now_ms st) = LoggedOut
       \<and> localStorage (snd (isLoggedIn env now_ms st)) ''token'' = None
       \<and> uu_isLoggedIn (snd (isLoggedIn env now_ms st)) = Some LoggedOut
       \<and> fetches (trace (snd (isLoggedIn env now_ms st)))
           = fetches (trace st) @ [logOut_request base False t]"
proof -
  obtain st1 where gt: "getToken env st = (Some t, st1)"
    using tok by (rule getToken_fst)
  have x: "expired (now_ms div 1000) p"
    using ex late by (simp add: expired_def)
  show ?thesis
    using memo x
    by (simp add: isLoggedIn_def u_isLoggedIn_cases[OF gt ne dec base] fetches_append split: prod.splits)
qed

text \<open>
  On the web page of \<open>example.com\<close>, ten seconds after \<open>t-good\<close> has expired.
\<close>

theorem expired_token_logs_out_witness:
  "uu_isLoggedIn (stored ''t-good'') = None
   \<and> fst (getToken web_env (stored ''t-good'')) = Some ''t-good''
   \<and> decodeJwt web_env ''t-good'' = Some \<lparr>iss = Some ''https://api.example.com'',
        aud = Some (AudString ''example.com''), exp = Some 1086400, iat = Some 1000000\<rparr>
   \<and> (1086400 :: int) \<le> 1086410000 div 1000
   \<and> getApiBase web_env (stored ''t-good'') = Some ''https://api.example.com''
   \<and> fst (isLoggedIn web_env 1086410000 (stored ''t-good'')) = LoggedOut
   \<and> localStorage (snd (isLoggedIn web_env 1086410000 (stored ''t-good''))) ''token'' = None
   \<and> fetches (trace (snd (isLoggedIn web_env 1086410000 (stored ''t-good''))))
       = [logOut_request ''https://api.example.com'' False ''t-good'']"
proof -
  have h1: "uu_isLoggedIn (stored ''t-good'') = None"
    by (simp add: stored_def example_state_def)
  have h2: "fst (getToken web_env (stored ''t-good'')) = Some ''t-good''"
    by (simp add: getToken_def stored_def example_state_def)
  have h3: "decodeJwt web_env ''t-good'' = Some \<lparr>iss = Some ''https://api.example.com'',
        aud = Some (AudString ''example.com''), exp = Some 1086400, iat = Some 1000000\<rparr>"
    by (simp add: web_env_def example_env_def example_decodeJwt_def)
  have h4: "(1086400 :: int) \<le> 1086410000 div 1000" by simp
  have h5: "getApiBase web_env (stored ''t-good'') = Some ''https://api.example.com''"
    by (simp add: getApiBase_def getAudience_def web_env_def example_env_def js_slice_last_def)
  have h6: "trace (stored ''t-good'') = []"
    by (simp add: stored_def example_state_def)
  show ?thesis
    using expired_token_logs_out[OF h1 h2 _ h3 _ h4 h5] h1 h2 h3 h4 h5 h6 by simp
qed

text \<open>
  Without the proviso the claim fails. On \<open>localhost\<close> with an \<open>apiHost\<close> entry in the
  store and no \<open>API_BASE_URL\<close> in the build, \<open>getApiBase\<close> throws inside the issuer check;
  the exception is caught, \<open>isLoggedIn()\<close> returns \<open>false\<close>, and the expired token stays in
  the store with no request sent.
\<close>

theorem expired_token_without_api_base_counterexample:
  "uu_isLoggedIn (example_state [(''token'', ''t-local''), (''apiHost'', ''http://localhost:9000'')] None) = None
   \<and> fst (getToken (example_env ''web'' ''localhost'' None)
           (example_state [(''token'', ''t-local''), (''apiHost'', ''http://localhost:9000'')] None)) = Some ''t-local''
   \<and> decodeJwt (example_env ''web'' ''localhost'' None) ''t-local'' = Some \<lparr>iss = Some ''http://localhost:8787'',
        aud = Some (AudString ''localhost''), exp = Some 1086400, iat = Some 1000000\<rparr>
   \<and> (1086400 :: int) \<le> 1086410000 div 1000
   \<and> localStorage (snd (isLoggedIn (example_env ''web'' ''localhost'' None) 1086410000
        (example_state [(''token'', ''t-local''), (''apiHost'', ''http://localhost:9000'')] None))) ''token''
       = Some ''t-local''
   \<and> fetches (trace (snd (isLoggedIn (example_env ''web'' ''localhost'' None) 1086410000
        (example_state [(''token'', ''t-local''), (''apiHost'', ''http://localhost:9000'')] None)))) = []"
  by (simp add: isLoggedIn_def u_isLoggedIn_def getToken_def getApiBase_def getAudience_def
      example_env_def example_state_def example_decodeJwt_def js_slice_last_def emit_def isNative_def)

text \<open>
  Claim C2. A stored token decodes to claims whose \<open>iss\<close> differs from the computed API
  base. In a web context the validator returns \<open>false\<close> and issues exactly one request, the
  logout POST. In a native context the issuer check is skipped and the later checks decide:
  a wrong audience or an expired token gives \<open>false\<close> with one logout POST; otherwise no
  logout happens, the token stays in the store, a refresh is dispatched when due, and the
  result is the schema's verdict on the payload.
\<close>

theorem issuer_mismatch_web_fails_native_skips:
  assumes tok: "fst (getToken env st) = Some t" and ne: "t \<noteq> []"
    and dec: "decodeJwt env t = Some p"
    and base: "getApiBase env st = Some base"
    and mismatch: "iss p \<noteq> Some base"
  shows "(\<not> isNative env \<longrightarrow>
            fst (u_isLoggedIn env now_ms st) = LoggedOut
          \<and> fetches (trace (snd (u_isLoggedIn env now_ms st)))
              = fetches (trace st) @ [logOut_request base False t])
       \<and> (isNative env \<longrightarrow>
            (if aud p \<noteq> Some (AudString (getAudience env)) \<or> expired (now_ms div 1000) p then
               fst (u_isLoggedIn env now_ms st) = LoggedOut
             \<and> fetches (trace (snd (u_isLoggedIn env now_ms st)))
                 = fetches (trace st) @ [logOut_request base False t]
             else
               fst (u_isLoggedIn env now_ms st)
                 = (case TokenPayloadSchema_safeParse env p of
                      None \<Rightarrow> LoggedOut
                    | Some c \<Rightarrow> LoggedIn t c)
             \<and> localStorage (snd (u_isLoggedIn env now_ms st)) ''token'' = Some t
             \<and> fetches (trace (snd (u_isLoggedIn env now_ms st)))
                 = fetches (trace st)
                   @ (if refresh_due (now_ms div 1000) p then [refresh_request base t] else [])))"
proof -
  obtain st1 where gt: "getToken env st = (Some t, st1)"
    using tok by (rule getToken_fst)
  have store: "localStorage st1 ''token'' = Some t"
    by (rule getToken_props(1)[OF gt])
  show ?thesis
    using mismatch store
    by (simp add: u_isLoggedIn_cases[OF gt ne dec base] fetches_append emit_def Let_def
        split: option.splits)
qed

text \<open>
  The token \<open>t-iss\<close> on the web page and in the native shell.
\<close>

theorem issuer_mismatch_web_fails_native_skips_witness:
  "fst (getToken web_env (stored ''t-iss'')) = Some ''t-iss''
   \<and> fst (getToken native_env (stored ''t-iss'')) = Some ''t-iss''
   \<and> decodeJwt web_env ''t-iss'' = example_decodeJwt ''t-iss''
   \<and> decodeJwt native_env ''t-iss'' = example_decodeJwt ''t-iss''
   \<and> iss (the (example_decodeJwt ''t-iss'')) = Some ''https://api.evil.example''
   \<and> getApiBase web_env (stored ''t-iss'') = Some ''https://api.example.com''
   \<and> getApiBase native_env (stored ''t-iss'') = Some ''https://api.example.com''
   \<and> \<not> isNative web_env \<and> isNative native_env
   \<and> fst (u_isLoggedIn web_env 1000100000 (stored ''t-iss'')) = LoggedOut
   \<and> fetches (trace (snd (u_isLoggedIn web_env 1000100000 (stored ''t-iss''))))
       = [logOut_request ''https://api.example.com'' False ''t-iss'']
   \<and> fst (u_isLoggedIn native_env 1000100000 (stored ''t-iss''))
       = LoggedIn ''t-iss'' (the (example_decodeJwt ''t-iss''))
   \<and> fetches (trace (snd (u_isLoggedIn native_env 1000100000 (stored ''t-iss'')))) = []"
proof -
  let ?p = "\<lparr>iss = Some ''https://api.evil.example'', aud = Some (AudString ''example.com''),
              exp = Some 1086400, iat = Some 1000000\<rparr>"
  have p: "example_decodeJwt ''t-iss'' = Some ?p"
    by (simp add: example_decodeJwt_def)
  have w1: "fst (getToken web_env (stored ''t-iss'')) = Some ''t-iss''"
    and n1: "fst (getToken native_env (stored ''t-iss'')) = Some ''t-iss''"
    by (simp_all add: getToken_def stored_def example_state_def)
  have w2: "decodeJwt web_env ''t-iss'' = Some ?p" and n2: "decodeJwt native_env ''t-iss'' = Some ?p"
    by (simp_all add: web_env_def native_env_def example_env_def p)
  have w3: "getApiBase web_env (stored ''t-iss'') = Some ''https://api.example.com''"
    and n3: "getApiBase native_env (stored ''t-iss'') = Some ''https://api.example.com''"
    by (simp_all add: getApiBase_def getAudience_def web_env_def native_env_def example_env_def
        js_slice_last_def)
  have plat: "\<not> isNative web_env" "isNative native_env"
    by (simp_all add: isNative_def web_env_def native_env_def example_env_def)
  have facts: "trace (stored ''t-iss'') = []"
    "getAudience native_env = ''example.com''"
    "\<not> expired (1000100000 div 1000) ?p" "\<not> refresh_due (1000100000 div 1000) ?p"
    "TokenPayloadSchema_safeParse native_env ?p = Some ?p"
    by (simp_all add: stored_def example_state_def getAudience_def native_env_def example_env_def
        js_slice_last_def expired_def refresh_due_def refreshAge_def example_TokenPayloadSchema_def)
  have web: "fst (u_isLoggedIn web_env 1000100000 (stored ''t-iss'')) = LoggedOut
      \<and> fetches (trace (snd (u_isLoggedIn web_env 1000100000 (stored ''t-iss''))))
       = [logOut_request ''https://api.example.com'' False ''t-iss'']"
    using issuer_mismatch_web_fails_native_skips[OF w1 _ w2 w3, of 1000100000] plat facts by simp
  have native: "fst (u_isLoggedIn native_env 1000100000 (stored ''t-iss'')) = LoggedIn ''t-iss'' ?p
      \<and> fetches (trace (snd (u_isLoggedIn native_env 1000100000 (stored ''t-iss'')))) = []"
    using issuer_mismatch_web_fails_native_skips[OF n1 _ n2 n3, of 1000100000] plat facts by simp
  show ?thesis
    using web native w1 n1 w2 n2 w3 n3 plat p by simp
qed

text \<open>
  Claim C3. A stored token decodes, passes the issuer and audience checks and is not
  expired, and its \<open>iat\<close> is at least six hours old. Then the validator issues exactly one
  request, the refresh POST carrying the token, and the token stays in the store. When the
  payload has the expected shape the validator returns the token with its claims, and that
  value is the same whatever the outcome of the refresh turns out to be.
\<close>

theorem stale_token_stays_valid_and_refreshes:
  assumes tok: "fst (getToken env st) = Some t" and ne: "t \<noteq> []"
    and dec: "decodeJwt env t = Some p"
    and base: "getApiBase env st = Some base"
    and issuer: "iss p = Some base \<or> isNative env"
    and audience: "aud p = Some (AudString (getAudience env))"
    and fresh: "\<forall>e. exp p = Some e \<longrightarrow> now_ms div 1000 < e"
    and issued: "iat p = Some i" and old: "i + 6 * 3600 \<le> now_ms div 1000"
  shows "fetches (trace (snd (u_isLoggedIn env now_ms st)))
           = fetches (trace st) @ [refresh_request base t]
       \<and> localStorage (snd (u_isLoggedIn env now_ms st)) ''token'' = Some t
       \<and> (\<forall>c. TokenPayloadSchema_safeParse env p = Some c \<longrightarrow>
               fst (u_isLoggedIn env now_ms st) = LoggedIn t c
             \<and> (\<forall>outcome. fst (validate_then_refresh_settles env now_ms outcome st)
                            = LoggedIn t c))"
proof -
  obtain st1 where gt: "getToken env st = (Some t, st1)"
    using tok by (rule getToken_fst)
  have store: "localStorage st1 ''token'' = Some t"
    by (rule getToken_props(1)[OF gt])
  have nx: "\<not> expired (now_ms div 1000) p"
    using fresh by (auto simp: expired_def split: option.splits)
  have due: "refresh_due (now_ms div 1000) p"
    using issued old by (simp add: refresh_due_def refreshAge_def)
  have r: "u_isLoggedIn env now_ms st =
      (case TokenPayloadSchema_safeParse env p of
         None \<Rightarrow> (LoggedOut, emit (ConsoleError ''Invalid payload'')
             (st1\<lparr>trace := trace st @ [DecodeJwt t, ConsoleLog ''Refreshing access token...'',
                                       Fetch (refresh_request base t)]\<rparr>))
       | Some c \<Rightarrow> (LoggedIn t c,
             st1\<lparr>trace := trace st @ [DecodeJwt t, ConsoleLog ''Refreshing access token...'',
                                       Fetch (refresh_request base t)]\<rparr>))"
    using issuer audience nx due
    by (auto simp: u_isLoggedIn_cases[OF gt ne dec base] Let_def)
  show ?thesis
    using store
    by (auto simp: r validate_then_refresh_settles_def fetches_append emit_def
        split: option.splits prod.splits)
qed

text \<open>
  The token \<open>t-good\<close>, 25000 seconds after it was issued.
\<close>

theorem stale_token_stays_valid_and_refreshes_witness:
  "fst (getToken web_env (stored ''t-good'')) = Some ''t-good''
   \<and> decodeJwt web_env ''t-good'' = example_decodeJwt ''t-good''
   \<and> getApiBase web_env (stored ''t-good'') = Some ''https://api.example.com''
   \<and> iss (the (example_decodeJwt ''t-good'')) = Some ''https://api.example.com''
   \<and> aud (the (example_decodeJwt ''t-good'')) = Some (AudString (getAudience web_env))
   \<and> exp (the (example_decodeJwt ''t-good'')) = Some 1086400
   \<and> iat (the (example_decodeJwt ''t-good'')) = Some 1000000
   \<and> (1000000 :: int) + 6 * 3600 \<le> 1025000000 div 1000
   \<and> (1025000000 :: int) div 1000 < 1086400
   \<and> TokenPayloadSchema_safeParse web_env (the (example_decodeJwt ''t-good''))
       = example_decodeJwt ''t-good''
   \<and> fst (u_isLoggedIn web_env 1025000000 (stored ''t-good''))
       = LoggedIn ''t-good'' (the (example_decodeJwt ''t-good''))
   \<and> fetches (trace (snd (u_isLoggedIn web_env 1025000000 (stored ''t-good''))))
       = [refresh_request ''https://api.example.com'' ''t-good'']
   \<and> fst (validate_then_refresh_settles web_env 1025000000 FetchRejected (stored ''t-good''))
       = LoggedIn ''t-good'' (the (example_decodeJwt ''t-good''))"
proof -
  let ?p = "\<lparr>iss = Some ''https://api.example.com'', aud = Some (AudString ''example.com''),
              exp = Some 1086400, iat = Some 1000000\<rparr>"
  have p: "example_decodeJwt ''t-good'' = Some ?p"
    by (simp add: example_decodeJwt_def)
  have h1: "fst (getToken web_env (stored ''t-good'')) = Some ''t-good''"
    by (simp add: getToken_def stored_def example_state_def)
  have h2: "decodeJwt web_env ''t-good'' = Some ?p"
    by (simp add: web_env_def example_env_def p)
  have h3: "getApiBase web_env (stored ''t-good'') = Some ''https://api.example.com''"
    by (simp add: getApiBase_def getAudience_def web_env_def example_env_def js_slice_last_def)
  have h4: "iss ?p = Some ''https://api.example.com'' \<or> isNative web_env" by simp
  have h5: "aud ?p = Some (AudString (getAudience web_env))"
    by (simp add: getAudience_def web_env_def example_env_def js_slice_last_def)
  have h6: "\<forall>e. exp ?p = Some e \<longrightarrow> (1025000000 :: int) div 1000 < e" by simp
  have h7: "iat ?p = Some 1000000" by simp
  have h8: "(1000000 :: int) + 6 * 3600 \<le> 1025000000 div 1000" by simp
  have h9: "TokenPayloadSchema_safeParse web_env ?p = Some ?p"
    by (simp add: web_env_def example_env_def example_TokenPayloadSchema_def)
  have h10: "trace (stored ''t-good'') = []"
    by (simp add: stored_def example_state_def)
  show ?thesis
    using stale_token_stays_valid_and_refreshes[OF h1 _ h2 h3 h4 h5 h6 h7 h8] h1 h2 h3 h5 h9 h10 p
    by simp
qed

text \<open>
  Claim C8. A stored token decodes, passes the issuer, audience and expiry checks, and its
  payload fails the schema. Then the validator returns \<open>false\<close>, the token is still in the
  store, and the only request the call may have issued is the refresh POST: no POST went to
  the logout or the revoke endpoint.
\<close>

theorem shape_mismatch_does_not_log_out:
  assumes tok: "fst (getToken env st) = Some t" and ne: "t \<noteq> []"
    and dec: "decodeJwt env t = Some p"
    and base: "getApiBase env st = Some base"
    and issuer: "iss p = Some base \<or> isNative env"
    and audience: "aud p = Some (AudString (getAudience env))"
    and fresh: "\<not> expired (now_ms div 1000) p"
    and shape: "TokenPayloadSchema_safeParse env p = None"
  shows "fst (u_isLoggedIn env now_ms st) = LoggedOut
       \<and> localStorage (snd (u_isLoggedIn env now_ms st)) ''token'' = Some t
       \<and> fetches (trace (snd (u_isLoggedIn env now_ms st)))
           = fetches (trace st)
             @ (if refresh_due (now_ms div 1000) p then [refresh_request base t] else [])
       \<and> posts_to (base @ ''/logout'') (trace (snd (u_isLoggedIn env now_ms st)))
           = posts_to (base @ ''/logout'') (trace st)
       \<and> posts_to (base @ ''/revoke'') (trace (snd (u_isLoggedIn env now_ms st)))
           = posts_to (base @ ''/revoke'') (trace st)"
proof -
  obtain st1 where gt: "getToken env st = (Some t, st1)"
    using tok by (rule getToken_fst)
  have store: "localStorage st1 ''token'' = Some t"
    by (rule getToken_props(1)[OF gt])
  show ?thesis
    using issuer audience fresh shape store
    by (auto simp: u_isLoggedIn_cases[OF gt ne dec base] Let_def fetches_append emit_def
        posts_to_def refresh_request_def)
qed

text \<open>
  The token \<open>t-shape\<close> on the web page.
\<close>

theorem shape_mismatch_does_not_log_out_witness:
  "fst (getToken web_env (stored ''t-shape'')) = Some ''t-shape''
   \<and> decodeJwt web_env ''t-shape'' = example_decodeJwt ''t-shape''
   \<and> getApiBase web_env (stored ''t-shape'') = Some ''https://api.example.com''
   \<and> iss (the (example_decodeJwt ''t-shape'')) = Some ''https://api.example.com''
   \<and> aud (the (example_decodeJwt ''t-shape'')) = Some (AudString (getAudience web_env))
   \<and> \<not> expired (1000100000 div 1000) (the (example_decodeJwt ''t-shape''))
   \<and> TokenPayloadSchema_safeParse web_env (the (example_decodeJwt ''t-shape'')) = None
   \<and> fst (u_isLoggedIn web_env 1000100000 (stored ''t-shape'')) = LoggedOut
   \<and> localStorage (snd (u_isLoggedIn web_env 1000100000 (stored ''t-shape''))) ''token''
       = Some ''t-shape''
   \<and> fetches (trace (snd (u_isLoggedIn web_env 1000100000 (stored ''t-shape'')))) = []"
proof -
  let ?p = "\<lparr>iss = Some ''https://api.example.com'', aud = Some (AudString ''example.com''),
              exp = None, iat = None\<rparr>"
  have p: "example_decodeJwt ''t-shape'' = Some ?p"
    by (simp add: example_decodeJwt_def)
  have h1: "fst (getToken web_env (stored ''t-shape'')) = Some ''t-shape''"
    by (simp add: getToken_def stored_def example_state_def)
  have h2: "decodeJwt web_env ''t-shape'' = Some ?p"
    by (simp add: web_env_def example_env_def p)
  have h3: "getApiBase web_env (stored ''t-shape'') = Some ''https://api.example.com''"
    by (simp add: getApiBase_def getAudience_def web_env_def example_env_def js_slice_last_def)
  have h4: "iss ?p = Some ''https://api.example.com'' \<or> isNative web_env" by simp
  have h5: "aud ?p = Some (AudString (getAudience web_env))"
    by (simp add: getAudience_def web_env_def example_env_def js_slice_last_def)
  have h6: "\<not> expired (1000100000 div 1000) ?p" by (simp add: expired_def)
  have h7: "TokenPayloadSchema_safeParse web_env ?p = None"
    by (simp add: web_env_def example_env_def example_TokenPayloadSchema_def)
  have h8: "trace (stored ''t-shape'') = []" "\<not> refresh_due (1000100000 div 1000) ?p"
    by (simp_all add: stored_def example_state_def refresh_due_def)
  show ?thesis
    using shape_mismatch_does_not_log_out[OF h1 _ h2 h3 h4 h5 h6 h7] h1 h2 h3 h5 h6 h7 h8 p
    by simp
qed

subsection \<open>The session cache\<close>

text \<open>
  Claim C7. A second call of \<open>isLoggedIn()\<close> that follows the first with nothing in
  between, at whatever time, returns the value the first call returned and leaves the state
  as the first call left it: nothing is added to the trace, so no token is decoded again.
\<close>

theorem isLoggedIn_memoized:
  "isLoggedIn env now2 (snd (isLoggedIn env now1 st)) = isLoggedIn env now1 st
   \<and> decodes (trace (snd (isLoggedIn env now2 (snd (isLoggedIn env now1 st)))))
       = decodes (trace (snd (isLoggedIn env now1 st)))"
proof -
  have "isLoggedIn env now2 (snd (isLoggedIn env now1 st)) = isLoggedIn env now1 st"
  proof (cases "uu_isLoggedIn st")
    case None
    then show ?thesis
      by (cases "u_isLoggedIn env now1 st") (simp add: isLoggedIn_def)
  next
    case (Some r)
    then show ?thesis by (simp add: isLoggedIn_def)
  qed
  then show ?thesis by simp
qed

text \<open>
  The second call comes after the token has expired and still answers from the memo.
\<close>

theorem isLoggedIn_memoized_witness:
  "isLoggedIn web_env 1086410000 (snd (isLoggedIn web_env 1000100000 (stored ''t-good'')))
     = isLoggedIn web_env 1000100000 (stored ''t-good'')
   \<and> fst (isLoggedIn web_env 1000100000 (stored ''t-good''))
       = LoggedIn ''t-good'' (the (example_decodeJwt ''t-good''))
   \<and> decodes (trace (snd (isLoggedIn web_env 1086410000
         (snd (isLoggedIn web_env 1000100000 (stored ''t-good''))))))
       = [''t-good'']"
proof -
  have s0: "isLoggedIn web_env 1000100000 (stored ''t-good'')
      = (LoggedIn ''t-good'' (the (example_decodeJwt ''t-good'')),
         \<lparr>localStorage = map_of [(''token'', ''t-good'')], location_hash = [],
         uu_isLoggedIn = Some (LoggedIn ''t-good'' (the (example_decodeJwt ''t-good''))),
         trace = [DecodeJwt ''t-good'']\<rparr>)"
    by (simp add: isLoggedIn_def u_isLoggedIn_def getToken_def getApiBase_def getAudience_def
        web_env_def example_env_def stored_def example_state_def example_decodeJwt_def
        example_TokenPayloadSchema_def js_slice_last_def emit_def isNative_def expired_def
        refresh_due_def refreshAge_def)
  show ?thesis
    using isLoggedIn_memoized[of web_env 1086410000 1000100000 "stored ''t-good''"]
    by (simp add: s0)
qed


subsection \<open>Refresh\<close>

text \<open>A refresh that returns \<open>true\<close> never writes the memo.\<close>

lemma postRefresh_resume_success_memo:
  assumes "postRefresh_resume env outcome st = (True, st')"
  shows "uu_isLoggedIn st' = uu_isLoggedIn st"
  using assms
  by (auto simp: postRefresh_resume_def setItem_def split: fetch_outcome.splits if_splits option.splits)


text \<open>
  Claim C4 asks that a successful refresh resets the memo. It does not: \<open>postRefresh\<close>
  stores the replacement token and returns \<open>true\<close> without touching \<open>__isLoggedIn\<close>. Here
  a validated session refreshes with status 200 and a well-formed body; afterwards the store
  holds \<open>t-new\<close>, the memo still holds \<open>t-good\<close>, and the next \<open>isLoggedIn()\<close> returns
  \<open>t-good\<close> from the memo.
\<close>

theorem successful_refresh_leaves_memo_stale:
  "fst (postRefresh web_env (FetchResponse \<lparr>status = 200, json = Some [(''token'', ''t-new'')]\<rparr>)
         (snd (isLoggedIn web_env 1000100000 (stored ''t-good'')))) = True
   \<and> localStorage (snd (postRefresh web_env (FetchResponse \<lparr>status = 200, json = Some [(''token'', ''t-new'')]\<rparr>)
         (snd (isLoggedIn web_env 1000100000 (stored ''t-good''))))) ''token'' = Some ''t-new''
   \<and> uu_isLoggedIn (snd (postRefresh web_env (FetchResponse \<lparr>status = 200, json = Some [(''token'', ''t-new'')]\<rparr>)
         (snd (isLoggedIn web_env 1000100000 (stored ''t-good'')))))
       = Some (LoggedIn ''t-good'' (the (example_decodeJwt ''t-good'')))
   \<and> fst (isLoggedIn web_env 1000200000
         (snd (postRefresh web_env (FetchResponse \<lparr>status = 200, json = Some [(''token'', ''t-new'')]\<rparr>)
         (snd (isLoggedIn web_env 1000100000 (stored ''t-good''))))))
       = LoggedIn ''t-good'' (the (example_decodeJwt ''t-good''))"
proof -
  have s0: "snd (isLoggedIn web_env 1000100000 (stored ''t-good''))
      = \<lparr>localStorage = map_of [(''token'', ''t-good'')], location_hash = [],
         uu_isLoggedIn = Some (LoggedIn ''t-good'' (the (example_decodeJwt ''t-good''))),
         trace = [DecodeJwt ''t-good'']\<rparr>"
    by (simp add: isLoggedIn_def u_isLoggedIn_def getToken_def getApiBase_def getAudience_def
        web_env_def example_env_def stored_def example_state_def example_decodeJwt_def
        example_TokenPayloadSchema_def js_slice_last_def emit_def isNative_def expired_def
        refresh_due_def refreshAge_def)
  show ?thesis
    unfolding s0
    by (simp add: postRefresh_def postRefresh_start_def postRefresh_resume_def getToken_def
        getApiBase_def getAudience_def web_env_def example_env_def js_slice_last_def emit_def
        setItem_def isLoggedIn_def)
qed


text \<open>
  Claim C5, as the code has it. Once the refresh request has been sent, an answer with any
  status other than 200 makes the call resolve to \<open>false\<close> and changes nothing: the state
  is the one in which the request was sent, the store is as \<open>getToken\<close> left it, and the
  memo is the one from before the call.
\<close>

theorem refresh_non_200_leaves_state:
  assumes sent: "fst (postRefresh_start env st) = Awaiting" and failed: "status r \<noteq> 200"
  shows "postRefresh env (FetchResponse r) st = (False, snd (postRefresh_start env st))
       \<and> localStorage (snd (postRefresh env (FetchResponse r) st)) = localStorage (snd (getToken env st))
       \<and> uu_isLoggedIn (snd (postRefresh env (FetchResponse r) st)) = uu_isLoggedIn st"
proof -
  obtain tok st1 where gt: "getToken env st = (tok, st1)"
    by (cases "getToken env st")
  have memo: "uu_isLoggedIn st1 = uu_isLoggedIn st"
    by (rule getToken_props(4)[OF gt])
  have whole: "postRefresh env (FetchResponse r) st = (False, snd (postRefresh_start env st))"
    using sent failed
    by (cases "postRefresh_start env st") (simp add: postRefresh_def postRefresh_resume_def)
  have start: "snd (postRefresh_start env st) = st1
      \<or> (\<exists>q. snd (postRefresh_start env st) = emit (Fetch q) st1)"
    using sent by (auto simp: postRefresh_start_def gt split: option.splits if_splits)
  show ?thesis
    using start memo by (auto simp: whole gt emit_def)
qed

text \<open>
  Status 500 for the token \<open>t-good\<close>, memo unset.
\<close>

theorem refresh_non_200_leaves_state_witness:
  "fst (postRefresh_start web_env (stored ''t-good'')) = Awaiting
   \<and> status \<lparr>status = 500, json = (None :: (string \<times> string) list option)\<rparr> \<noteq> 200
   \<and> fst (postRefresh web_env (FetchResponse \<lparr>status = 500, json = None\<rparr>) (stored ''t-good'')) = False
   \<and> localStorage (snd (postRefresh web_env (FetchResponse \<lparr>status = 500, json = None\<rparr>)
         (stored ''t-good''))) ''token'' = Some ''t-good''
   \<and> uu_isLoggedIn (snd (postRefresh web_env (FetchResponse \<lparr>status = 500, json = None\<rparr>)
         (stored ''t-good''))) = None"
proof -
  have h1: "fst (postRefresh_start web_env (stored ''t-good'')) = Awaiting"
    by (simp add: postRefresh_start_def getToken_def getApiBase_def getAudience_def web_env_def
        example_env_def stored_def example_state_def js_slice_last_def)
  have h2: "status \<lparr>status = 500, json = (None :: (string \<times> string) list option)\<rparr> \<noteq> 200"
    by simp
  have h3: "snd (getToken web_env (stored ''t-good'')) = stored ''t-good''"
    by (simp add: getToken_def stored_def example_state_def)
  have h4: "localStorage (stored ''t-good'') ''token'' = Some ''t-good''"
    "uu_isLoggedIn (stored ''t-good'') = None"
    by (simp_all add: stored_def example_state_def)
  note c = refresh_non_200_leaves_state[OF h1 h2]
  have r1: "fst (postRefresh web_env (FetchResponse \<lparr>status = 500, json = None\<rparr>) (stored ''t-good'')) = False"
    by (simp add: c[THEN conjunct1])
  have r2: "localStorage (snd (postRefresh web_env (FetchResponse \<lparr>status = 500, json = None\<rparr>)
         (stored ''t-good''))) ''token'' = Some ''t-good''"
    by (simp add: c[THEN conjunct2, THEN conjunct1] h3 h4)
  have r3: "uu_isLoggedIn (snd (postRefresh web_env (FetchResponse \<lparr>status = 500, json = None\<rparr>)
         (stored ''t-good''))) = None"
    by (simp add: c[THEN conjunct2, THEN conjunct2] h4)
  show ?thesis
    using h1 h2 r1 r2 r3 by (intro conjI)
qed

text \<open>
  The claim's last part fails: after a validated session, a refresh answered with status
  500 resolves to \<open>false\<close> and the next \<open>isLoggedIn()\<close> still reports the session.
\<close>

theorem refresh_5xx_keeps_session_counterexample:
  "fst (postRefresh web_env (FetchResponse \<lparr>status = 500, json = None\<rparr>)
         (snd (isLoggedIn web_env 1000100000 (stored ''t-good'')))) = False
   \<and> localStorage (snd (postRefresh web_env (FetchResponse \<lparr>status = 500, json = None\<rparr>)
         (snd (isLoggedIn web_env 1000100000 (stored ''t-good''))))) ''token'' = Some ''t-good''
   \<and> fetches (trace (snd (postRefresh web_env (FetchResponse \<lparr>status = 500, json = None\<rparr>)
         (snd (isLoggedIn web_env 1000100000 (stored ''t-good''))))))
       = [refresh_request ''https://api.example.com'' ''t-good'']
   \<and> fst (isLoggedIn web_env 1000200000
         (snd (postRefresh web_env (FetchResponse \<lparr>status = 500, json = None\<rparr>)
         (snd (isLoggedIn web_env 1000100000 (stored ''t-good''))))))
       \<noteq> LoggedOut"
proof -
  have s0: "snd (isLoggedIn web_env 1000100000 (stored ''t-good''))
      = \<lparr>localStorage = map_of [(''token'', ''t-good'')], location_hash = [],
         uu_isLoggedIn = Some (LoggedIn ''t-good'' (the (example_decodeJwt ''t-good''))),
         trace = [DecodeJwt ''t-good'']\<rparr>"
    by (simp add: isLoggedIn_def u_isLoggedIn_def getToken_def getApiBase_def getAudience_def
        web_env_def example_env_def stored_def example_state_def example_decodeJwt_def
        example_TokenPayloadSchema_def js_slice_last_def emit_def isNative_def expired_def
        refresh_due_def refreshAge_def)
  show ?thesis
    unfolding s0
    by (simp add: postRefresh_def postRefresh_start_def postRefresh_resume_def getToken_def
        getApiBase_def getAudience_def web_env_def example_env_def js_slice_last_def emit_def
        isLoggedIn_def)
qed


subsection \<open>Logout and the native callback\<close>

text \<open>
  Claim C9. With no token in the store, \<open>logOut\<close> returns at once, for either value of
  \<open>allSessions\<close>: its promise is fulfilled with \<open>undefined\<close> (not rejected, and not the
  \<open>false\<close> of a failed logout), and the state is untouched: same store, same memo, and no
  new entry in the trace, so no request.
\<close>

theorem logOut_without_token_is_noop:
  assumes "localStorage st ''token'' = None"
  shows "logOut_start env allSessions st = (Fulfilled None, st)"
  using assms by (simp add: logOut_start_def)

text \<open>
  An empty store, both values of \<open>allSessions\<close>.
\<close>

theorem logOut_without_token_is_noop_witness:
  "localStorage (example_state [] (None :: JWTPayload IsLoggedInResponse option)) ''token'' = None
   \<and> logOut_start web_env False (example_state [] None) = (Fulfilled None, example_state [] None)
   \<and> logOut_start web_env True (example_state [] None) = (Fulfilled None, example_state [] None)"
proof -
  have h: "localStorage (example_state [] (None :: JWTPayload IsLoggedInResponse option)) ''token'' = None"
    by (simp add: example_state_def)
  show ?thesis
    using logOut_without_token_is_noop[OF h, of web_env False]
      logOut_without_token_is_noop[OF h, of web_env True] h
    by simp
qed


text \<open>
  Claim C10. The listener that \<open>initializeAuthListener\<close> registers receives a URL whose
  query has no \<open>error\<close> parameter and lacks \<open>code\<close> or \<open>state\<close>. Then the listener
  finishes without an \<open>await\<close> and leaves the state untouched: no request, no write to
  the store or the memo, no \<open>Browser.close\<close>.
\<close>

theorem callback_without_parameters_does_nothing:
  assumes listener: "initializeAuthListener env = Some listener"
    and parsed: "URL_search env data_url = Some q"
    and no_error: "URLSearchParams_get env q ''error'' = None"
    and not_both: "\<not> (URLSearchParams_get env q ''code'' \<noteq> None
                     \<and> URLSearchParams_get env q ''state'' \<noteq> None)"
  shows "listener data_url st = (Fulfilled (), st)"
proof -
  have l: "listener = appUrlOpen_start env"
    using listener by (simp add: initializeAuthListener_def split: if_splits)
  have "\<not> (truthy (URLSearchParams_get env q ''code'') \<and> truthy (URLSearchParams_get env q ''state''))"
    using not_both by auto
  then show ?thesis
    using parsed no_error by (auto simp: l appUrlOpen_start_def Let_def)
qed

text \<open>
  A callback URL that carries a \<open>code\<close> and no \<open>state\<close>.
\<close>

theorem callback_without_parameters_does_nothing_witness:
  "initializeAuthListener native_env = Some (appUrlOpen_start native_env)
   \<and> URL_search native_env ''openfront://callback?code=abc'' = Some ''?code=abc''
   \<and> URLSearchParams_get native_env ''?code=abc'' ''error'' = None
   \<and> URLSearchParams_get native_env ''?code=abc'' ''code'' = Some ''abc''
   \<and> URLSearchParams_get native_env ''?code=abc'' ''state'' = None
   \<and> appUrlOpen_start native_env ''openfront://callback?code=abc'' (stored ''t-good'')
       = (Fulfilled (), stored ''t-good'')"
proof -
  have h1: "initializeAuthListener native_env = Some (appUrlOpen_start native_env)"
    by (simp add: initializeAuthListener_def native_env_def example_env_def)
  have h2: "URL_search native_env ''openfront://callback?code=abc'' = Some ''?code=abc''"
    and h3: "URLSearchParams_get native_env ''?code=abc'' ''error'' = None"
    and h4: "URLSearchParams_get native_env ''?code=abc'' ''code'' = Some ''abc''"
    and h5: "URLSearchParams_get native_env ''?code=abc'' ''state'' = None"
    by (simp_all add: native_env_def example_env_def)
  have h6: "\<not> (URLSearchParams_get native_env ''?code=abc'' ''code'' \<noteq> None
              \<and> URLSearchParams_get native_env ''?code=abc'' ''state'' \<noteq> None)"
    using h5 by simp
  show ?thesis
    using callback_without_parameters_does_nothing[OF h1 h2 h3 h6, of "stored ''t-good''"]
      h1 h2 h3 h4 h5
    by simp
qed

subsection \<open>The origin check\<close>

lemma indexOf_lower: "- 1 \<le> indexOf xs x"
  by (induction xs) (auto simp: Let_def)

lemma indexOf_absent: "indexOf xs x = -1 \<longleftrightarrow> x \<notin> set xs"
proof (induction xs)
  case Nil
  show ?case by simp
next
  case (Cons y ys)
  then show ?case
    using indexOf_lower[of ys x] by (auto simp: Let_def)
qed


text \<open>
  Claim C6, with the empty origin on the allowed side. A request without \<open>Origin\<close>, or
  with an empty one, is allowed; an origin on the allow-list is allowed, and the options ask
  for credentials; every other non-empty origin is refused with the error
  \<open>Not allowed by CORS\<close>.
\<close>

theorem origin_gatekeeper:
  "origin (corsOptions allowed) None = Callback None (Some True)
   \<and> origin (corsOptions allowed) (Some []) = Callback None (Some True)
   \<and> (orig \<in> set allowed \<longrightarrow>
         origin (corsOptions allowed) (Some orig) = Callback None (Some True)
       \<and> credentials (corsOptions allowed) = True)
   \<and> (orig \<noteq> [] \<and> orig \<notin> set allowed \<longrightarrow>
         origin (corsOptions allowed) (Some orig) = Callback (Some ''Not allowed by CORS'') None)"
  by (simp add: corsOptions_def indexOf_absent)

text \<open>
  The production allow-list of a server at \<open>https://play.example.com\<close>.
\<close>

theorem origin_gatekeeper_witness:
  "''https://openfront.io'' \<in> set (allowedOrigins ''https://play.example.com'' (2::nat) 0 None)
   \<and> ''https://evil.example'' \<notin> set (allowedOrigins ''https://play.example.com'' (2::nat) 0 None)
   \<and> origin (corsOptions (allowedOrigins ''https://play.example.com'' (2::nat) 0 None))
         (Some ''https://openfront.io'') = Callback None (Some True)
   \<and> credentials (corsOptions (allowedOrigins ''https://play.example.com'' (2::nat) 0 None)) = True
   \<and> origin (corsOptions (allowedOrigins ''https://play.example.com'' (2::nat) 0 None))
         (Some ''https://evil.example'') = Callback (Some ''Not allowed by CORS'') None"
proof -
  let ?allowed = "allowedOrigins ''https://play.example.com'' (2::nat) 0 None"
  have a: "''https://openfront.io'' \<in> set ?allowed"
    and b: "''https://evil.example'' \<notin> set ?allowed"
    by (simp_all add: allowedOrigins_def)
  show ?thesis
    using origin_gatekeeper[of ?allowed "''https://openfront.io''"]
      origin_gatekeeper[of ?allowed "''https://evil.example''"] a b
    by simp
qed

text \<open>
  An \<open>Origin\<close> header that is present and empty is not on the allow-list and is allowed.
\<close>

theorem empty_origin_allowed_counterexample:
  "[] \<notin> set (allowedOrigins ''https://play.example.com'' (2::nat) 0 None)
   \<and> origin (corsOptions (allowedOrigins ''https://play.example.com'' (2::nat) 0 None)) (Some [])
       = Callback None (Some True)"
  by (simp add: allowedOrigins_def corsOptions_def)


end
